theory Spec2Isabelle
  imports Main
begin

section \<open>The uploader component of \<open>src/App.tsx\<close>\<close>

subsection \<open>Data\<close>

text \<open>
  What the component reads of a platform \<open>File\<close>: \<open>file.name\<close> and \<open>file.type\<close>,
  both strings (either may be empty).
\<close>

record File =
  file_name :: string
  file_type :: string

text \<open>The argument of \<open>editor.addComponent\<close> (App.tsx 77-87).\<close>

record ComponentData =
  src :: string
  name :: string

record ComponentStyle =
  width :: int
  height :: int

record Component =
  comp_type :: string
  data :: ComponentData
  style :: ComponentStyle

text \<open>
  The five \<open>useState\<close> cells of \<open>App\<close> (App.tsx 9-13), in the source's names; a cell of
  type \<open>string | null\<close> is a \<open>string option\<close>. Two more fields make the effects
  explicit: \<open>readers\<close> holds the file of every \<open>FileReader\<close> that was started by
  \<open>readAsDataURL\<close> and has fired neither \<open>onload\<close> nor \<open>onerror\<close> yet, oldest first;
  \<open>addComponentCalls\<close> logs the arguments of the calls of \<open>editor.addComponent\<close>, oldest
  first.
\<close>

record App =
  imageDataUrl :: "string option"
  fileName :: "string option"
  fileType :: "string option"
  error :: "string option"
  dragActive :: bool
  readers :: "File list"
  addComponentCalls :: "Component list"

definition init :: App where
  "init = \<lparr>imageDataUrl = None, fileName = None, fileType = None, error = None,
           dragActive = False, readers = [], addComponentCalls = []\<rparr>"

definition ALLOWED_TYPES :: "string list" where
  "ALLOWED_TYPES = [''image/svg+xml'', ''image/webp'']"

text \<open>
  The three messages the component writes to \<open>error\<close> (App.tsx 25, 37, 72), under the
  names of the error taxonomy.
\<close>

definition UnsupportedType :: string where
  "UnsupportedType = ''Please upload an SVG or WebP file.''"

definition ReadFailure :: string where
  "ReadFailure = ''Failed to read the file.''"

definition NoFileSelected :: string where
  "NoFileSelected = ''No image selected.''"

text \<open>
  JavaScript truthiness of a \<open>string | null\<close>: \<open>null\<close> and the empty string are falsy,
  so \<open>!x\<close> holds for both.
\<close>

fun truthy :: "string option \<Rightarrow> bool" where
  "truthy None = False"
| "truthy (Some v) = (v \<noteq> [])"

text \<open>
  \<open>files?.[0]\<close>: \<open>undefined\<close> when the list is \<open>null\<close> or empty, its first file
  otherwise.
\<close>

fun first_file :: "File list option \<Rightarrow> File option" where
  "first_file None = None"
| "first_file (Some []) = None"
| "first_file (Some (f # rest)) = Some f"

subsection \<open>Handlers\<close>

text \<open>
  A handler runs to completion on the event loop, so each one is a function from the
  state before to the state after. \<open>preventDefault\<close> and \<open>stopPropagation\<close> act on the
  event object and not on the component, and the \<open>message\<close> listener only logs; they
  are left out.
\<close>

definition reset :: "App \<Rightarrow> App" where
  "reset s = s\<lparr>imageDataUrl := None, fileName := None, fileType := None, error := None\<rparr>"

text \<open>
  \<open>Array.prototype.includes\<close> compares the string with each element by value:
  membership in the list's elements.
\<close>

definition readFileAsDataUrl :: "App \<Rightarrow> File \<Rightarrow> App" where
  "readFileAsDataUrl s file =
     (if file_type file \<notin> set ALLOWED_TYPES
      then s\<lparr>error := Some UnsupportedType\<rparr>
      else s\<lparr>error := None, readers := readers s @ [file]\<rparr>)"

text \<open>The two callbacks of the reader that was started for \<open>file\<close> (App.tsx 31-38).\<close>

definition onload :: "File \<Rightarrow> string \<Rightarrow> App \<Rightarrow> App" where
  "onload file result s =
     s\<lparr>imageDataUrl := Some result, fileName := Some (file_name file),
       fileType := Some (file_type file)\<rparr>"

definition onerror :: "App \<Rightarrow> App" where
  "onerror s = s\<lparr>error := Some ReadFailure\<rparr>"

definition handleFileChange :: "App \<Rightarrow> File list option \<Rightarrow> App" where
  "handleFileChange s files =
     (case first_file files of None \<Rightarrow> s | Some file \<Rightarrow> readFileAsDataUrl s file)"

definition handleDrop :: "App \<Rightarrow> File list option \<Rightarrow> App" where
  "handleDrop s files =
     (let s1 = s\<lparr>dragActive := False\<rparr>
      in case first_file files of None \<Rightarrow> s1 | Some file \<Rightarrow> readFileAsDataUrl s1 file)"

definition handleDragOver :: "App \<Rightarrow> App" where
  "handleDragOver s = s\<lparr>dragActive := True\<rparr>"

definition handleDragLeave :: "App \<Rightarrow> App" where
  "handleDragLeave s = s\<lparr>dragActive := False\<rparr>"

text \<open>
  In the branch that calls the editor all three cells are truthy, hence \<open>Some\<close>.
\<close>

definition insertToWixEditor :: "App \<Rightarrow> App" where
  "insertToWixEditor s =
     (if \<not> truthy (imageDataUrl s) \<or> \<not> truthy (fileName s) \<or> \<not> truthy (fileType s)
      then s\<lparr>error := Some NoFileSelected\<rparr>
      else s\<lparr>addComponentCalls := addComponentCalls s @
             [\<lparr>comp_type = ''Image'',
               data = \<lparr>src = the (imageDataUrl s), name = the (fileName s)\<rparr>,
               style = \<lparr>width = 200, height = 200\<rparr>\<rparr>]\<rparr>)"

subsection \<open>Events\<close>

text \<open>
  What can happen to the mounted component. The dropzone registers \<open>onDrop\<close>,
  \<open>onDragOver\<close> and \<open>onDragLeave\<close> (App.tsx 105-107) and the input \<open>onChange\<close>
  (App.tsx 120); no handler is registered for \<open>dragenter\<close>, so that event reaches the
  component and changes nothing. The Clear and Insert buttons are rendered only while
  \<open>imageDataUrl\<close> is truthy (App.tsx 127, 149-150), so they can be clicked only then.
  A pending reader fires \<open>onload\<close> with its result or \<open>onerror\<close>, once, and readers may
  finish in any order; \<open>i\<close> is the reader's position in \<open>readers\<close>.
\<close>

datatype event =
    FileChange "File list option"
  | Drop "File list option"
  | DragEnter
  | DragOver
  | DragLeave
  | ClearClick
  | InsertClick
  | ReaderLoad nat string
  | ReaderError nat

definition drop_reader :: "nat \<Rightarrow> App \<Rightarrow> App" where
  "drop_reader i s = s\<lparr>readers := take i (readers s) @ drop (Suc i) (readers s)\<rparr>"

text \<open>\<open>None\<close>: the event cannot happen in this state.\<close>

fun step :: "App \<Rightarrow> event \<Rightarrow> App option" where
  "step s (FileChange files) = Some (handleFileChange s files)"
| "step s (Drop files) = Some (handleDrop s files)"
| "step s DragEnter = Some s"
| "step s DragOver = Some (handleDragOver s)"
| "step s DragLeave = Some (handleDragLeave s)"
| "step s ClearClick = (if truthy (imageDataUrl s) then Some (reset s) else None)"
| "step s InsertClick =
     (if truthy (imageDataUrl s) then Some (insertToWixEditor s) else None)"
| "step s (ReaderLoad i result) =
     (if i < length (readers s)
      then Some (onload (readers s ! i) result (drop_reader i s)) else None)"
| "step s (ReaderError i) =
     (if i < length (readers s) then Some (onerror (drop_reader i s)) else None)"

fun run :: "App \<Rightarrow> event list \<Rightarrow> App option" where
  "run s [] = Some s"
| "run s (e # es) = (case step s e of None \<Rightarrow> None | Some s' \<Rightarrow> run s' es)"

text \<open>
  The states the component reaches when every file that enters the pipeline has a
  non-empty name and every reader result is non-empty: the image cells are all null
  or all non-empty, and the pending files are named and of an allowed type.
\<close>

fun named_event :: "event \<Rightarrow> bool" where
  "named_event (FileChange files) =
     (case first_file files of None \<Rightarrow> True | Some f \<Rightarrow> file_name f \<noteq> [])"
| "named_event (Drop files) =
     (case first_file files of None \<Rightarrow> True | Some f \<Rightarrow> file_name f \<noteq> [])"
| "named_event (ReaderLoad i result) = (result \<noteq> [])"
| "named_event e = True"

definition named_state :: "App \<Rightarrow> bool" where
  "named_state s \<longleftrightarrow>
     list_all (\<lambda>f. file_name f \<noteq> [] \<and> file_type f \<in> set ALLOWED_TYPES) (readers s) \<and>
     (imageDataUrl s = None \<and> fileName s = None \<and> fileType s = None \<or>
      truthy (imageDataUrl s) \<and> truthy (fileName s) \<and> truthy (fileType s))"

text \<open>Example files and reader results for the closed instances below.\<close>

definition logo_svg :: File where
  "logo_svg = \<lparr>file_name = ''logo.svg'', file_type = ''image/svg+xml''\<rparr>"

definition photo_webp :: File where
  "photo_webp = \<lparr>file_name = ''photo.webp'', file_type = ''image/webp''\<rparr>"

definition scan_png :: File where
  "scan_png = \<lparr>file_name = ''scan.png'', file_type = ''image/png''\<rparr>"

definition unnamed_svg :: File where
  "unnamed_svg = \<lparr>file_name = [], file_type = ''image/svg+xml''\<rparr>"

definition unnamed_webp :: File where
  "unnamed_webp = \<lparr>file_name = [], file_type = ''image/webp''\<rparr>"

definition svg_url :: string where
  "svg_url = ''data:image/svg+xml;base64,PHN2Zy8+''"

definition webp_url :: string where
  "webp_url = ''data:image/webp;base64,UklGRg==''"

definition shown_logo :: App where
  "shown_logo = \<lparr>imageDataUrl = Some svg_url, fileName = Some ''logo.svg'',
                 fileType = Some ''image/svg+xml'', error = None, dragActive = False,
                 readers = [], addComponentCalls = []\<rparr>"

definition failed_read :: App where
  "failed_read = \<lparr>imageDataUrl = None, fileName = None, fileType = None,
                  error = Some ReadFailure, dragActive = True, readers = [],
                  addComponentCalls = []\<rparr>"

lemmas example_defs =
  logo_svg_def photo_webp_def scan_png_def unnamed_svg_def unnamed_webp_def
  svg_url_def webp_url_def

lemmas handler_defs =
  readFileAsDataUrl_def handleFileChange_def handleDrop_def handleDragOver_def
  handleDragLeave_def insertToWixEditor_def reset_def onload_def onerror_def
  drop_reader_def

section \<open>Validation\<close>

lemma member_ALLOWED_TYPES:
  "t \<in> set ALLOWED_TYPES \<longleftrightarrow> t = ''image/svg+xml'' \<or> t = ''image/webp''"
  by (auto simp: ALLOWED_TYPES_def)

text \<open>
  C1. The allow-list check accepts a MIME type exactly when it is the string
  \<open>image/svg+xml\<close> or the string \<open>image/webp\<close>, compared character by character. A file
  of any other type gets the UnsupportedType message and starts no reader; a file of
  one of the two types gets no error and starts a reader.
\<close>

theorem C1_validate_exact:
  "(t \<in> set ALLOWED_TYPES \<longleftrightarrow> t = ''image/svg+xml'' \<or> t = ''image/webp'') \<and>
   (file_type f \<notin> {''image/svg+xml'', ''image/webp''} \<longrightarrow>
      readFileAsDataUrl s f = s\<lparr>error := Some UnsupportedType\<rparr>) \<and>
   (file_type g \<in> {''image/svg+xml'', ''image/webp''} \<longrightarrow>
      readFileAsDataUrl s g = s\<lparr>error := None, readers := readers s @ [g]\<rparr>)"
  by (simp add: member_ALLOWED_TYPES readFileAsDataUrl_def)

theorem C1_validate_exact_witness:
  "''IMAGE/WEBP'' \<notin> set ALLOWED_TYPES \<and>
   file_type scan_png \<notin> {''image/svg+xml'', ''image/webp''} \<and>
   readFileAsDataUrl init scan_png = init\<lparr>error := Some UnsupportedType\<rparr> \<and>
   file_type photo_webp \<in> {''image/svg+xml'', ''image/webp''} \<and>
   readFileAsDataUrl init photo_webp =
     init\<lparr>error := None, readers := readers init @ [photo_webp]\<rparr>"
  using C1_validate_exact [of "''IMAGE/WEBP''" scan_png init photo_webp]
  by (simp add: example_defs)

section \<open>Intake\<close>

text \<open>
  C2, as claimed: in every reachable state at most one of the decoded image and the
  error is current, and a file that fails validation clears the image. It fails: after
  an SVG file is selected and read, selecting a PNG file leaves the image of the SVG file
  current together with the UnsupportedType message.
\<close>

theorem C2_image_and_error_both_current:
  "run init [FileChange (Some [logo_svg]), ReaderLoad 0 svg_url, FileChange (Some [scan_png])] =
   Some \<lparr>imageDataUrl = Some svg_url, fileName = Some ''logo.svg'',
         fileType = Some ''image/svg+xml'', error = Some UnsupportedType,
         dragActive = False, readers = [], addComponentCalls = []\<rparr>"
  by (simp add: init_def handler_defs example_defs ALLOWED_TYPES_def)

text \<open>
  C2, amended. The error and the decoded image are independent cells. When the
  candidate file of a picker change or of a drop fails validation, UnsupportedType is
  published and \<open>imageDataUrl\<close>, \<open>fileName\<close> and \<open>fileType\<close> keep the values they had: the
  state changes in \<open>error\<close> only (and in \<open>dragActive\<close> for a drop).
\<close>

theorem C2_failed_validation_keeps_image:
  assumes "file_type f \<notin> set ALLOWED_TYPES"
  shows "step s (FileChange (Some (f # rest))) =
           Some (s\<lparr>error := Some UnsupportedType\<rparr>) \<and>
         step s (Drop (Some (f # rest))) =
           Some (s\<lparr>error := Some UnsupportedType, dragActive := False\<rparr>)"
  using assms by (simp add: handleFileChange_def handleDrop_def readFileAsDataUrl_def)

theorem C2_failed_validation_keeps_image_witness:
  "file_type scan_png \<notin> set ALLOWED_TYPES \<and>
   step shown_logo (FileChange (Some [scan_png])) =
     Some (shown_logo\<lparr>error := Some UnsupportedType\<rparr>) \<and>
   step shown_logo (Drop (Some [scan_png])) =
     Some (shown_logo\<lparr>error := Some UnsupportedType, dragActive := False\<rparr>) \<and>
   imageDataUrl (shown_logo\<lparr>error := Some UnsupportedType\<rparr>) = Some svg_url"
proof -
  have h: "file_type scan_png \<notin> set ALLOWED_TYPES"
    by (simp add: scan_png_def ALLOWED_TYPES_def)
  show ?thesis
    using h C2_failed_validation_keeps_image [OF h, of shown_logo "[]"]
    by (simp add: shown_logo_def)
qed

text \<open>
  C4, as claimed: when A and then B are selected, A's result is never committed once B
  has been selected. It fails both ways. If A's reader finishes first, A's result is
  committed while B's reader is still pending; if B's reader finishes first, A's
  result replaces B's and is the final one.
\<close>

theorem C4_stale_result_committed:
  "run init [FileChange (Some [logo_svg]), FileChange (Some [photo_webp]),
             ReaderLoad 0 svg_url] =
   Some \<lparr>imageDataUrl = Some svg_url, fileName = Some ''logo.svg'',
         fileType = Some ''image/svg+xml'', error = None, dragActive = False,
         readers = [photo_webp], addComponentCalls = []\<rparr> \<and>
   run init [FileChange (Some [logo_svg]), FileChange (Some [photo_webp]),
             ReaderLoad 1 webp_url, ReaderLoad 0 svg_url] =
   Some \<lparr>imageDataUrl = Some svg_url, fileName = Some ''logo.svg'',
         fileType = Some ''image/svg+xml'', error = None, dragActive = False,
         readers = [], addComponentCalls = []\<rparr>"
  by (simp add: init_def handler_defs example_defs ALLOWED_TYPES_def)

text \<open>
  C4, amended. A decode's result is committed when its reader finishes, whether or not
  a newer file has been selected since. For valid files A and then B selected in a
  state with \<open>n\<close> pending readers: if A's reader finishes first, A's result is current
  while B's is pending and B's is the final one; if B's reader finishes first, A's
  result is the final one. The final result is that of the reader that finishes last.
\<close>

theorem C4_last_completion_wins:
  assumes "file_type a \<in> set ALLOWED_TYPES" and "file_type b \<in> set ALLOWED_TYPES"
    and "n = length (readers s)"
  shows "run s [FileChange (Some (a # as)), FileChange (Some (b # bs)), ReaderLoad n ra] =
           Some (s\<lparr>imageDataUrl := Some ra, fileName := Some (file_name a),
                  fileType := Some (file_type a), error := None,
                  readers := readers s @ [b]\<rparr>) \<and>
         run s [FileChange (Some (a # as)), FileChange (Some (b # bs)), ReaderLoad n ra,
                ReaderLoad n rb] =
           Some (s\<lparr>imageDataUrl := Some rb, fileName := Some (file_name b),
                  fileType := Some (file_type b), error := None\<rparr>) \<and>
         run s [FileChange (Some (a # as)), FileChange (Some (b # bs)),
                ReaderLoad (Suc n) rb, ReaderLoad n ra] =
           Some (s\<lparr>imageDataUrl := Some ra, fileName := Some (file_name a),
                  fileType := Some (file_type a), error := None\<rparr>)"
  using assms
  by (simp add: handleFileChange_def readFileAsDataUrl_def onload_def drop_reader_def
      nth_append)

theorem C4_last_completion_wins_witness:
  "file_type logo_svg \<in> set ALLOWED_TYPES \<and> file_type photo_webp \<in> set ALLOWED_TYPES \<and>
   0 = length (readers init) \<and>
   run init [FileChange (Some [logo_svg]), FileChange (Some [photo_webp]),
             ReaderLoad (Suc 0) webp_url, ReaderLoad 0 svg_url] =
     Some (init\<lparr>imageDataUrl := Some svg_url, fileName := Some (file_name logo_svg),
                fileType := Some (file_type logo_svg), error := None\<rparr>)"
proof -
  have a: "file_type logo_svg \<in> set ALLOWED_TYPES"
    by (simp add: logo_svg_def ALLOWED_TYPES_def)
  have b: "file_type photo_webp \<in> set ALLOWED_TYPES"
    by (simp add: photo_webp_def ALLOWED_TYPES_def)
  have n: "0 = length (readers init)"
    by (simp add: init_def)
  show ?thesis
    using a b n C4_last_completion_wins [OF a b n, of "[]" "[]" svg_url webp_url]
    by simp
qed

text \<open>
  C5. No failure stops the component: in every state, whatever message is in \<open>error\<close>,
  a picker change and a drop are handled, and when the candidate file's type is on the
  allow-list the handler leaves \<open>error\<close> cleared and starts a reader for the file.
\<close>

theorem C5_valid_selection_clears_error:
  assumes "file_type f \<in> set ALLOWED_TYPES"
  shows "step s (FileChange (Some (f # rest))) =
           Some (s\<lparr>error := None, readers := readers s @ [f]\<rparr>) \<and>
         step s (Drop (Some (f # rest))) =
           Some (s\<lparr>error := None, dragActive := False, readers := readers s @ [f]\<rparr>) \<and>
         error (handleFileChange s (Some (f # rest))) = None \<and>
         error (handleDrop s (Some (f # rest))) = None"
  using assms by (simp add: handleFileChange_def handleDrop_def readFileAsDataUrl_def)

theorem C5_valid_selection_clears_error_witness:
  "file_type photo_webp \<in> set ALLOWED_TYPES \<and> error failed_read = Some ReadFailure \<and>
   step failed_read (FileChange (Some [photo_webp])) =
     Some (failed_read\<lparr>error := None, readers := readers failed_read @ [photo_webp]\<rparr>)"
proof -
  have h: "file_type photo_webp \<in> set ALLOWED_TYPES"
    by (simp add: photo_webp_def ALLOWED_TYPES_def)
  show ?thesis
    using h C5_valid_selection_clears_error [OF h, of failed_read "[]"]
    by (simp add: failed_read_def)
qed

text \<open>
  C6. A picker change that delivers no file (\<open>files\<close> is \<open>null\<close> or empty) leaves the
  whole state as it was. A drop that delivers no file sets \<open>dragActive\<close> to false and
  leaves everything else as it was. In both cases the image cells and \<open>error\<close> are
  unchanged, so no error (NoFileSelected or other) is published, and no reader starts.
\<close>

theorem C6_no_file_no_effect:
  assumes "first_file files = None"
  shows "step s (FileChange files) = Some s \<and>
         step s (Drop files) = Some (s\<lparr>dragActive := False\<rparr>) \<and>
         error (handleFileChange s files) = error s \<and>
         error (handleDrop s files) = error s \<and>
         imageDataUrl (handleDrop s files) = imageDataUrl s \<and>
         fileName (handleDrop s files) = fileName s \<and>
         fileType (handleDrop s files) = fileType s"
  using assms by (simp add: handleFileChange_def handleDrop_def)

theorem C6_no_file_no_effect_witness:
  "first_file (Some []) = None \<and> first_file None = None \<and>
   step shown_logo (FileChange (Some [])) = Some shown_logo \<and>
   step failed_read (Drop None) = Some (failed_read\<lparr>dragActive := False\<rparr>) \<and>
   error (failed_read\<lparr>dragActive := False\<rparr>) = Some ReadFailure"
  using C6_no_file_no_effect [of "Some []" shown_logo]
    C6_no_file_no_effect [of None failed_read]
  by (simp add: failed_read_def)

text \<open>
  C8. Of a picker change or a drop that delivers several files, only the first is
  passed to \<open>readFileAsDataUrl\<close>: the handler does what it does for that file alone, and
  the only reader it can start is one for that file.
\<close>

theorem C8_only_first_file:
  "handleFileChange s (Some (f # rest)) = readFileAsDataUrl s f \<and>
   handleFileChange s (Some (f # rest)) = handleFileChange s (Some [f]) \<and>
   handleDrop s (Some (f # rest)) = readFileAsDataUrl (s\<lparr>dragActive := False\<rparr>) f \<and>
   handleDrop s (Some (f # rest)) = handleDrop s (Some [f]) \<and>
   readers (handleFileChange s (Some (f # rest))) \<in> {readers s, readers s @ [f]} \<and>
   readers (handleDrop s (Some (f # rest))) \<in> {readers s, readers s @ [f]}"
  by (simp add: handleFileChange_def handleDrop_def readFileAsDataUrl_def)

section \<open>Drag state\<close>

text \<open>
  C7, as claimed: every drag-enter event sets the drag state to active. It fails: the
  component has no handler for \<open>dragenter\<close>, and in the initial state, where the drag
  state is idle, that event leaves it idle.
\<close>

theorem C7_dragenter_stays_idle:
  "step init DragEnter = Some init \<and> dragActive init = False"
  by (simp add: init_def)

text \<open>
  C7, amended. The drag state has two values. Every drag-over event sets it to active
  and every drag-leave or drop event sets it to idle, whatever it was before; a
  drag-enter event leaves it as it is. The drag state never gates validation: a picker
  change does the same to the other cells for either value of the drag state, and a drop
  gives the same state for either value.
\<close>

theorem C7_drag_state_machine:
  "map_option dragActive (step s DragOver) = Some True \<and>
   map_option dragActive (step s DragLeave) = Some False \<and>
   map_option dragActive (step s (Drop files)) = Some False \<and>
   step s DragEnter = Some s \<and>
   step s DragOver = Some (s\<lparr>dragActive := True\<rparr>) \<and>
   step s DragLeave = Some (s\<lparr>dragActive := False\<rparr>) \<and>
   readFileAsDataUrl (s\<lparr>dragActive := d\<rparr>) f = (readFileAsDataUrl s f)\<lparr>dragActive := d\<rparr> \<and>
   handleFileChange (s\<lparr>dragActive := d\<rparr>) files = (handleFileChange s files)\<lparr>dragActive := d\<rparr> \<and>
   handleDrop (s\<lparr>dragActive := d\<rparr>) files = handleDrop s files"
  by (simp add: handleDragOver_def handleDragLeave_def handleDrop_def handleFileChange_def
      readFileAsDataUrl_def Let_def split: option.split)

theorem C7_drag_state_machine_witness:
  "step shown_logo DragOver = Some (shown_logo\<lparr>dragActive := True\<rparr>) \<and>
   step failed_read DragLeave = Some (failed_read\<lparr>dragActive := False\<rparr>) \<and>
   map_option dragActive (step failed_read (Drop (Some [scan_png, logo_svg]))) = Some False \<and>
   step init DragEnter = Some init"
  using C7_drag_state_machine [of shown_logo "Some []" False logo_svg]
    C7_drag_state_machine [of failed_read "Some [scan_png, logo_svg]" False logo_svg]
    C7_drag_state_machine [of init None False logo_svg]
  by simp

section \<open>Reset\<close>

text \<open>
  C9. From every state, \<open>reset\<close> sets \<open>imageDataUrl\<close>, \<open>fileName\<close>, \<open>fileType\<close> and \<open>error\<close>
  to null, the values they have initially, and leaves \<open>dragActive\<close> as it was.
\<close>

theorem C9_reset:
  "imageDataUrl (reset s) = None \<and> fileName (reset s) = None \<and>
   fileType (reset s) = None \<and> error (reset s) = None \<and>
   dragActive (reset s) = dragActive s \<and>
   reset s = init\<lparr>dragActive := dragActive s, readers := readers s,
                    addComponentCalls := addComponentCalls s\<rparr>"
  by (simp add: reset_def init_def)

section \<open>Export\<close>

text \<open>
  What \<open>insertToWixEditor\<close> does in a state where the three image cells hold non-empty
  strings, and in a state where one of them is null.
\<close>

lemma insertToWixEditor_image:
  "imageDataUrl s = Some D \<Longrightarrow> fileName s = Some N \<Longrightarrow> fileType s = Some T \<Longrightarrow>
   D \<noteq> [] \<Longrightarrow> N \<noteq> [] \<Longrightarrow> T \<noteq> [] \<Longrightarrow>
   insertToWixEditor s =
     s\<lparr>addComponentCalls := addComponentCalls s @
         [\<lparr>comp_type = ''Image'', data = \<lparr>src = D, name = N\<rparr>,
           style = \<lparr>width = 200, height = 200\<rparr>\<rparr>]\<rparr>"
  by (simp add: insertToWixEditor_def)

lemma insertToWixEditor_no_image:
  "imageDataUrl s = None \<or> fileName s = None \<or> fileType s = None \<Longrightarrow>
   insertToWixEditor s = s\<lparr>error := Some NoFileSelected\<rparr>"
  by (auto simp: insertToWixEditor_def)

lemma named_state_init: "named_state init"
  by (simp add: named_state_def init_def)

lemma allowed_nonempty: "t \<in> set ALLOWED_TYPES \<Longrightarrow> t \<noteq> []"
  by (auto simp: ALLOWED_TYPES_def)

lemma named_state_readFileAsDataUrl:
  "named_state s \<Longrightarrow> file_name f \<noteq> [] \<Longrightarrow> named_state (readFileAsDataUrl s f)"
  by (simp add: named_state_def readFileAsDataUrl_def)

lemma named_state_dragActive:
  "named_state (s\<lparr>dragActive := d\<rparr>) = named_state s"
  by (simp add: named_state_def)

lemma named_state_drop_reader:
  assumes "named_state s"
  shows "named_state (drop_reader i s)"
proof -
  have "set (take i (readers s) @ drop (Suc i) (readers s)) \<subseteq> set (readers s)"
    using set_take_subset [of i "readers s"] set_drop_subset [of "Suc i" "readers s"]
    by auto
  with assms show ?thesis
    unfolding named_state_def drop_reader_def list_all_iff by auto
qed

lemma named_state_step:
  assumes "named_state s" and "named_event e" and "step s e = Some s'"
  shows "named_state s'"
proof (cases e)
  case (FileChange files)
  with assms show ?thesis
    by (auto simp: handleFileChange_def named_state_readFileAsDataUrl split: option.splits)
next
  case (Drop files)
  with assms show ?thesis
    by (auto simp: handleDrop_def named_state_readFileAsDataUrl named_state_dragActive
        split: option.splits)
next
  case DragEnter
  with assms show ?thesis by simp
next
  case DragOver
  with assms show ?thesis by (auto simp: handleDragOver_def named_state_dragActive)
next
  case DragLeave
  with assms show ?thesis by (auto simp: handleDragLeave_def named_state_dragActive)
next
  case ClearClick
  with assms show ?thesis
    by (auto simp: reset_def named_state_def split: if_splits)
next
  case InsertClick
  with assms show ?thesis
    by (auto simp: insertToWixEditor_def named_state_def split: if_splits)
next
  case (ReaderLoad i result)
  with assms have i: "i < length (readers s)" and r: "result \<noteq> []"
    and s': "s' = onload (readers s ! i) result (drop_reader i s)"
    by (auto split: if_splits)
  from assms(1) i have f: "file_name (readers s ! i) \<noteq> []"
    "file_type (readers s ! i) \<in> set ALLOWED_TYPES"
    by (auto simp: named_state_def list_all_length)
  from named_state_drop_reader [OF assms(1), of i] f r show ?thesis
    by (simp add: s' onload_def named_state_def allowed_nonempty)
next
  case (ReaderError i)
  with assms have s': "s' = onerror (drop_reader i s)"
    by (auto split: if_splits)
  from named_state_drop_reader [OF assms(1), of i] show ?thesis
    by (simp add: s' onerror_def named_state_def)
qed

lemma named_state_run:
  "named_state s \<Longrightarrow> list_all named_event es \<Longrightarrow> run s es = Some s' \<Longrightarrow> named_state s'"
proof (induction es arbitrary: s)
  case Nil
  then show ?case by simp
next
  case (Cons e es)
  then show ?case
    by (auto split: option.splits dest: named_state_step)
qed

text \<open>
  With named files, export does what is asked of it in every reachable state: with
  the three image cells non-null it calls \<open>addComponent\<close> exactly once with their
  values and changes no cell.
\<close>

lemma export_of_named_image:
  assumes "run init es = Some s" and "list_all named_event es"
    and "imageDataUrl s = Some D" and "fileName s = Some N" and "fileType s = Some T"
  shows "insertToWixEditor s =
           s\<lparr>addComponentCalls := addComponentCalls s @
               [\<lparr>comp_type = ''Image'', data = \<lparr>src = D, name = N\<rparr>,
                 style = \<lparr>width = 200, height = 200\<rparr>\<rparr>]\<rparr>"
proof -
  have "named_state s"
    using named_state_run [OF named_state_init assms(2) assms(1)] .
  with assms(3-5) have "D \<noteq> [] \<and> N \<noteq> [] \<and> T \<noteq> []"
    by (simp add: named_state_def)
  with assms(3-5) show ?thesis
    by (simp add: insertToWixEditor_image)
qed



end
